theory Spec2Isabelle
  imports Main
begin

section \<open>Constants of the client (client.go)\<close>

definition libraryVersion :: string where
  "libraryVersion = ''1.60.0''"

definition defaultBaseURL :: string where
  "defaultBaseURL = ''https://api.digitalocean.com/''"

definition userAgent :: string where
  "userAgent = ''godo/'' @ libraryVersion"

definition mediaType :: string where
  "mediaType = ''application/json''"

definition headerRateLimit :: string where
  "headerRateLimit = ''RateLimit-Limit''"

definition headerRateRemaining :: string where
  "headerRateRemaining = ''RateLimit-Remaining''"

definition headerRateReset :: string where
  "headerRateReset = ''RateLimit-Reset''"

definition tagsBasePath :: string where
  "tagsBasePath = ''v2/tags''"

definition MethodGet :: string where "MethodGet = ''GET''"
definition MethodHead :: string where "MethodHead = ''HEAD''"
definition MethodOptions :: string where "MethodOptions = ''OPTIONS''"
definition MethodPost :: string where "MethodPost = ''POST''"
definition MethodDelete :: string where "MethodDelete = ''DELETE''"

definition StatusForbidden :: int where "StatusForbidden = 403"

section \<open>Go library behaviour the client relies on\<close>

subsection \<open>Header maps (net/http, net/textproto)\<close>

text \<open>
  An \<open>http.Header\<close> is a \<open>map[string][]string\<close>. \<open>Get\<close> and \<open>Set\<close> address the map
  through the canonical form of the key: the first letter and every letter after a
  hyphen in upper case, the others in lower case; a key with a byte that is not a
  token character is left as it is.
\<close>

type_synonym Header = "string \<rightharpoonup> string list"

definition isTokenChar :: "char \<Rightarrow> bool" where
  "isTokenChar c = (let n = (of_char c :: int) in
     (48 \<le> n \<and> n \<le> 57) \<or> (65 \<le> n \<and> n \<le> 90) \<or> (97 \<le> n \<and> n \<le> 122) \<or>
     n \<in> set [33, 35, 36, 37, 38, 39, 42, 43, 45, 46, 94, 95, 96, 124, 126])"

fun canonical :: "bool \<Rightarrow> string \<Rightarrow> string" where
  "canonical upper [] = []"
| "canonical upper (c # cs) =
     (let n = (of_char c :: int);
          c' = (if upper \<and> 97 \<le> n \<and> n \<le> 122 then char_of (n - 32)
                else if \<not> upper \<and> 65 \<le> n \<and> n \<le> 90 then char_of (n + 32)
                else c)
      in c' # canonical (c' = CHR ''-'') cs)"

definition CanonicalMIMEHeaderKey :: "string \<Rightarrow> string" where
  "CanonicalMIMEHeaderKey s = (if list_all isTokenChar s then canonical True s else s)"

definition Header_Get :: "Header \<Rightarrow> string \<Rightarrow> string" where
  "Header_Get h key =
     (case h (CanonicalMIMEHeaderKey key) of
        None \<Rightarrow> []
      | Some vs \<Rightarrow> (case vs of [] \<Rightarrow> [] | v # _ \<Rightarrow> v))"

definition Header_Set :: "Header \<Rightarrow> string \<Rightarrow> string \<Rightarrow> Header" where
  "Header_Set h key val = h(CanonicalMIMEHeaderKey key \<mapsto> [val])"

subsection \<open>Decimal parsing (strconv)\<close>

text \<open>
  \<open>strconv.Atoi\<close> on a 64-bit platform, and \<open>strconv.ParseInt(s, 10, 64)\<close>, which
  computes the same: an optional sign, then one or more decimal digits. A syntax error
  yields 0; a value outside the \<open>int64\<close> range yields the nearest bound and a range
  error. The client drops the error and keeps the value.
\<close>

datatype NumError = ErrSyntax | ErrRange

definition isDigit :: "char \<Rightarrow> bool" where
  "isDigit c = (48 \<le> (of_char c :: int) \<and> (of_char c :: int) \<le> 57)"

fun digits_value :: "int \<Rightarrow> string \<Rightarrow> int option" where
  "digits_value acc [] = Some acc"
| "digits_value acc (c # cs) =
     (if isDigit c then digits_value (acc * 10 + ((of_char c :: int) - 48)) cs else None)"

definition ParseInt :: "string \<Rightarrow> int \<times> NumError option" where
  "ParseInt s =
     (case s of
        [] \<Rightarrow> (0, Some ErrSyntax)
      | c # cs \<Rightarrow>
          (let neg = (c = CHR ''-'');
               ds = (if c = CHR ''+'' \<or> c = CHR ''-'' then cs else s)
           in if ds = [] then (0, Some ErrSyntax)
              else (case digits_value 0 ds of
                      None \<Rightarrow> (0, Some ErrSyntax)
                    | Some un \<Rightarrow>
                        if \<not> neg \<and> 2 ^ 63 \<le> un then (2 ^ 63 - 1, Some ErrRange)
                        else if neg \<and> 2 ^ 63 < un then (- (2 ^ 63), Some ErrRange)
                        else (if neg then - un else un, None))))"

definition Atoi :: "string \<Rightarrow> int \<times> NumError option" where
  "Atoi s = ParseInt s"

subsection \<open>Instants (time)\<close>

text \<open>
  A \<open>time.Time\<close> without monotonic reading: whole seconds since the zero instant
  (1 January of year 1, 00:00:00 UTC) in an \<open>int64\<close>, and nanoseconds within the second.
\<close>

record Time =
  sec :: int
  nsec :: int

definition zero_Time :: Time where
  "zero_Time = \<lparr>sec = 0, nsec = 0\<rparr>"

definition Time_IsZero :: "Time \<Rightarrow> bool" where
  "Time_IsZero t = (sec t = 0 \<and> nsec t = 0)"

definition Time_Before :: "Time \<Rightarrow> Time \<Rightarrow> bool" where
  "Time_Before t u = (sec t < sec u \<or> (sec t = sec u \<and> nsec t < nsec u))"

definition unixToInternal :: int where
  "unixToInternal = 62135596800"

definition wrap64 :: "int \<Rightarrow> int" where
  "wrap64 x = (x + 2 ^ 63) mod 2 ^ 64 - 2 ^ 63"

definition time_Unix :: "int \<Rightarrow> int \<Rightarrow> Time" where
  "time_Unix s ns = \<lparr>sec = wrap64 (s + unixToInternal), nsec = ns\<rparr>"

text \<open>
  Modelled from the spec: the declaration of \<open>Timestamp\<close> is missing from the sources.
  The spec has it as an absolute-time value converted from epoch seconds; the code
  builds it as \<open>Timestamp{time.Unix(v, 0)}\<close> and reads it as \<open>Reset.Time\<close>, so it wraps
  one instant.
\<close>

datatype Timestamp = Timestamp (Time_of: Time)

subsection \<open>Readers\<close>

text \<open>
  A response body is a reader: the bytes it delivers and, when reading breaks off,
  the error that ends it. \<open>ioutil.ReadAll\<close> returns both.
\<close>

datatype lib_error = LibError string

datatype ReadCloser = ReadCloser (delivered: string) (fault: "lib_error option")

definition ReadAll :: "ReadCloser \<Rightarrow> string \<times> lib_error option" where
  "ReadAll b = (delivered b, fault b)"

definition NopCloser :: "string \<Rightarrow> ReadCloser" where
  "NopCloser data = ReadCloser data None"

subsection \<open>Requests and responses (net/http)\<close>

record http_Request =
  Method :: string
  URL :: string
  Header :: Header
  Body :: "string option"

record http_Response =
  Status :: string
  StatusCode :: int
  resp_Header :: Header
  resp_Body :: ReadCloser
  Request :: "http_Request option"

section \<open>Data of the client\<close>

record Rate =
  Limit :: int
  Remaining :: int
  Reset :: Timestamp

definition zero_Rate :: Rate where
  "zero_Rate = \<lparr>Limit = 0, Remaining = 0, Reset = Timestamp zero_Time\<rparr>"

record ListOptions =
  Page :: int
  PerPage :: int

text \<open>
  Modelled from the spec: the declarations of the pagination metadata (links, counts)
  are missing from the sources. \<open>List\<close> only copies the two values from the decoded
  root into the response, so their types are left abstract, and the response wrapper
  has the two optional fields that \<open>List\<close> writes beside the two that \<open>client.go\<close>
  declares.
\<close>

typedecl Links
typedecl Meta

record Response =
  Response_http :: "http_Response option"
  Response_Rate :: Rate
  Response_Links :: "Links option"
  Response_Meta :: "Meta option"

record Client =
  BaseURL :: string
  UserAgent :: string
  Rate :: Rate
  headers :: "string \<rightharpoonup> string"

text \<open>
  The two error types hold a pointer to the response, which can be nil.
\<close>

datatype ErrorResponse =
  ErrorResponse (er_Response: "http_Response option") (er_Message: string)

datatype RateLimitError =
  RateLimitError (rle_Rate: Rate) (rle_Response: "http_Response option") (rle_Message: string)

datatype error =
    Lib lib_error
  | ErrErrorResponse ErrorResponse
  | ErrRateLimit RateLimitError

text \<open>
  A Go call either returns its results or panics; a panic is not an error value and no
  \<open>if err != nil\<close> of a caller sees it.
\<close>

datatype 'a outcome = Returns 'a | Panics

text \<open>
  What \<open>json.Unmarshal(data, errorResponse)\<close> does. \<open>ErrorResponse\<close> has two exported
  fields: \<open>Message\<close>, tagged \<open>message\<close>, and \<open>Response\<close>, a pointer without a tag, which
  the decoder therefore fills from a member named \<open>Response\<close>. The classifier sets that
  pointer to the response \<open>r\<close> it is classifying before it decodes, so an object under
  \<open>Response\<close> is decoded into \<open>r\<close> itself, \<open>null\<close> sets the pointer to nil, and an object
  after a \<open>null\<close> is decoded into a fresh response. The result of decoding is thus the
  error, if any, the response \<open>r\<close> as the decoder leaves it, what the pointer refers to
  afterwards, and the message stored.
\<close>

datatype pointer = PtrNil | PtrSame | PtrFresh http_Response

record unmarshal_result =
  um_err :: "lib_error option"
  um_target :: http_Response
  um_Response :: pointer
  um_Message :: string

text \<open>
  What the client takes from outside: URL parsing, the JSON codec, string formatting of
  the throttling message, the clock, the transport, and the repository's own
  \<open>addOptions\<close> helper, which is not among the sources. \<open>url_Parse_ref base ref\<close>
  stands for \<open>base.Parse(ref)\<close> followed by \<open>String()\<close>; \<open>json_Unmarshal data r\<close> is
  the decoding of \<open>data\<close> into an \<open>ErrorResponse\<close> with an empty message whose pointer
  refers to \<open>r\<close>.
\<close>

record 'b env =
  url_Parse_ref :: "string \<Rightarrow> string \<Rightarrow> lib_error + string"
  url_Parse :: "string \<Rightarrow> lib_error + string"
  json_Encode :: "'b \<Rightarrow> lib_error + string"
  json_Unmarshal :: "string \<Rightarrow> http_Response \<Rightarrow> unmarshal_result"
  Sprintf_rate :: "int \<Rightarrow> Time \<Rightarrow> string"
  time_Now :: Time
  client_Do :: "http_Request \<Rightarrow> http_Response"
  addOptions :: "string \<Rightarrow> ListOptions option \<Rightarrow> lib_error + string"

section \<open>NewRequest (client.go)\<close>

text \<open>
  \<open>http.NewRequest\<close>: an empty method means GET, the method must be a token, the URL
  must parse; a nil body gives a request without body, a buffer gives its bytes.
\<close>

definition validMethod :: "string \<Rightarrow> bool" where
  "validMethod m = (m \<noteq> [] \<and> list_all isTokenChar m)"

definition http_NewRequest ::
  "'b env \<Rightarrow> string \<Rightarrow> string \<Rightarrow> string option \<Rightarrow> error + http_Request" where
  "http_NewRequest E method u body =
     (let m = (if method = [] then MethodGet else method)
      in if \<not> validMethod m then Inl (Lib (LibError ''net/http: invalid method''))
         else (case url_Parse E u of
                 Inl e \<Rightarrow> Inl (Lib e)
               | Inr u' \<Rightarrow> Inr \<lparr>Method = m, URL = u', Header = Map.empty, Body = body\<rparr>))"

text \<open>
  Every \<open>return\<close> of \<open>NewRequest\<close> gives either an error or a request, so its results
  are a sum. Its last two statements write to \<open>req.Header\<close>; \<open>req\<close> is still the nil
  pointer when the \<open>switch\<close> took its empty \<open>default\<close> branch, and the write panics.
\<close>

definition set_common_headers ::
  "Client \<Rightarrow> http_Request option \<Rightarrow> (error + http_Request) outcome" where
  "set_common_headers c req =
     (case req of
        None \<Rightarrow> Panics
      | Some r \<Rightarrow>
          (let r1 = r\<lparr>Header := Header_Set (Header r) ''Accept'' mediaType\<rparr>;
               r2 = r1\<lparr>Header := Header_Set (Header r1) ''User-Agent'' (UserAgent c)\<rparr>
           in Returns (Inr r2)))"

definition NewRequest ::
  "'b env \<Rightarrow> Client \<Rightarrow> string \<Rightarrow> string \<Rightarrow> 'b option \<Rightarrow> (error + http_Request) outcome" where
  "NewRequest E c method urlStr body =
     (case url_Parse_ref E (BaseURL c) urlStr of
        Inl e \<Rightarrow> Returns (Inl (Lib e))
      | Inr u \<Rightarrow>
          if method = MethodGet \<or> method = MethodHead \<or> method = MethodOptions then
            (case http_NewRequest E method u None of
               Inl e \<Rightarrow> Returns (Inl e)
             | Inr r \<Rightarrow> set_common_headers c (Some r))
          else if method = MethodPost then
            (case (case body of
                     None \<Rightarrow> Inr []
                   | Some b \<Rightarrow> json_Encode E b) of
               Inl e \<Rightarrow> Returns (Inl (Lib e))
             | Inr buf \<Rightarrow>
                 (case http_NewRequest E method u (Some buf) of
                    Inl e \<Rightarrow> Returns (Inl e)
                  | Inr r \<Rightarrow>
                      set_common_headers c
                        (Some (r\<lparr>Header := Header_Set (Header r) ''Content-Type'' mediaType\<rparr>))))
          else set_common_headers c None)"

section \<open>Rate headers and the response wrapper (README, Rate limiter)\<close>

text \<open>
  \<open>parseRate\<close> writes the fields of the rate it is given whose header is there, and
  leaves the others. \<open>newResponse\<close> gives it the rate of a fresh \<open>Response\<close> literal,
  which is the zero value, and so does \<open>CheckResponse\<close>.
\<close>

definition parseRate :: "http_Response \<Rightarrow> Rate \<Rightarrow> Rate" where
  "parseRate r rate =
     (let limit = Header_Get (resp_Header r) headerRateLimit;
          rate1 = (if limit \<noteq> [] then rate\<lparr>Limit := fst (Atoi limit)\<rparr> else rate);
          remaining = Header_Get (resp_Header r) headerRateRemaining;
          rate2 = (if remaining \<noteq> [] then rate1\<lparr>Remaining := fst (Atoi remaining)\<rparr>
                   else rate1);
          reset = Header_Get (resp_Header r) headerRateReset
      in if reset \<noteq> [] then
           (let v = fst (ParseInt reset)
            in if v \<noteq> 0 then rate2\<lparr>Reset := Timestamp (time_Unix v 0)\<rparr> else rate2)
         else rate2)"

definition newResponse :: "http_Response \<Rightarrow> Response" where
  "newResponse r =
     (let response = \<lparr>Response_http = Some r, Response_Rate = zero_Rate,
                       Response_Links = None, Response_Meta = None\<rparr>
      in response\<lparr>Response_Rate := parseRate r (Response_Rate response)\<rparr>)"

section \<open>CheckResponse (README, Client error handling and Custom errors)\<close>

text \<open>
  The classifier of the README in its last form: the status test, the reading and
  decoding of the body, the body put back as a fresh buffer of the bytes read, then the
  \<open>switch\<close> with the rate-limit case before the default. The \<open>switch\<close> reads the status
  and the headers of the response after the decoding. The result is the error, if any,
  and the response as the call leaves it; the errors hold what the pointer of the
  decoded \<open>errorResponse\<close> refers to, which is that same response unless the decoding
  has redirected it.
\<close>

definition CheckResponse :: "'b env \<Rightarrow> http_Response \<Rightarrow> error option \<times> http_Response" where
  "CheckResponse E r =
     (if 200 \<le> StatusCode r \<and> StatusCode r \<le> 299 then (None, r)
      else
        (let (data, err) = ReadAll (resp_Body r);
             um = (if err = None \<and> 0 < length data then json_Unmarshal E data r
                   else \<lparr>um_err = None, um_target = r, um_Response = PtrSame,
                         um_Message = []\<rparr>);
             message = (if um_err um \<noteq> None then data else um_Message um);
             r' = (um_target um)\<lparr>resp_Body := NopCloser data\<rparr>;
             held = (case um_Response um of
                       PtrNil \<Rightarrow> None
                     | PtrSame \<Rightarrow> Some r'
                     | PtrFresh x \<Rightarrow> Some x)
         in if StatusCode r' = StatusForbidden
               \<and> Header_Get (resp_Header r') headerRateRemaining = ''0''
            then (Some (ErrRateLimit (RateLimitError (parseRate r' zero_Rate) held message)), r')
            else (Some (ErrErrorResponse (ErrorResponse held message)), r')))"

section \<open>The pipeline (README, Rate limiter)\<close>

definition checkRateLimitBeforeDo ::
  "'b env \<Rightarrow> Client \<Rightarrow> http_Request \<Rightarrow> RateLimitError option" where
  "checkRateLimitBeforeDo E c req =
     (let rate = Rate c
      in if \<not> Time_IsZero (Time_of (Reset rate)) \<and> Remaining rate = 0
            \<and> Time_Before (time_Now E) (Time_of (Reset rate))
         then
           (let resp = \<lparr>Status = ''Forbidden'', StatusCode = StatusForbidden,
                         resp_Header = Map.empty, resp_Body = NopCloser [],
                         Request = Some req\<rparr>
            in Some (RateLimitError rate (Some resp)
                       (Sprintf_rate E (Limit rate) (Time_of (Reset rate)))))
         else None)"

text \<open>
  \<open>Do\<close> as the README gives it with the rate check. The snippet ends after the test of
  the classifier's error; what the function does from there with the response and the
  target \<open>v\<close> is the argument \<open>rest\<close>. The context only cancels and is left out. The
  result is what \<open>Do\<close> returns together with the target, the client afterwards, and the
  requests handed to the transport, in order.
\<close>

definition Do ::
  "'b env \<Rightarrow> (Response \<Rightarrow> 'v \<Rightarrow> Response option \<times> error option \<times> 'v) \<Rightarrow>
   Client \<Rightarrow> http_Request \<Rightarrow> 'v \<Rightarrow>
   (Response option \<times> error option \<times> 'v) \<times> Client \<times> http_Request list" where
  "Do E rest c req v =
     (case checkRateLimitBeforeDo E c req of
        Some err \<Rightarrow>
          ((Some \<lparr>Response_http = rle_Response err, Response_Rate = rle_Rate err,
                   Response_Links = None, Response_Meta = None\<rparr>,
            Some (ErrRateLimit err), v), c, [])
      | None \<Rightarrow>
          (let resp = client_Do E req;
               response = newResponse resp;
               c' = c\<lparr>Rate := Response_Rate response\<rparr>;
               (err, resp') = CheckResponse E resp;
               response' = response\<lparr>Response_http := Some resp'\<rparr>
           in case err of
                Some e \<Rightarrow> ((Some response', Some e, v), c', [req])
              | None \<Rightarrow> (rest response' v, c', [req])))"

section \<open>The tags service (tags.go)\<close>

record Resource =
  ID :: string
  Type :: string

record Tag =
  Name :: string
  Resources :: "Resource list"

text \<open>
  Modelled from the spec: the declaration of \<open>tagsRoot\<close>, the structured success body
  that \<open>List\<close> decodes into, is missing from the sources; its three fields are the ones
  \<open>List\<close> reads.
\<close>

record tagsRoot =
  Tags :: "Tag list"
  root_Links :: "Links option"
  root_Meta :: "Meta option"

definition new_tagsRoot :: tagsRoot where
  "new_tagsRoot = \<lparr>Tags = [], root_Links = None, root_Meta = None\<rparr>"

definition set_Links :: "Links option \<Rightarrow> Response option \<Rightarrow> Response option outcome" where
  "set_Links l resp =
     (case l of
        None \<Rightarrow> Returns resp
      | Some x \<Rightarrow>
          (case resp of
             None \<Rightarrow> Panics
           | Some r \<Rightarrow> Returns (Some (r\<lparr>Response_Links := Some x\<rparr>))))"

definition set_Meta :: "Meta option \<Rightarrow> Response option \<Rightarrow> Response option outcome" where
  "set_Meta m resp =
     (case m of
        None \<Rightarrow> Returns resp
      | Some x \<Rightarrow>
          (case resp of
             None \<Rightarrow> Panics
           | Some r \<Rightarrow> Returns (Some (r\<lparr>Response_Meta := Some x\<rparr>))))"

definition TagsServiceOp_List ::
  "'b env \<Rightarrow> (Response \<Rightarrow> tagsRoot \<Rightarrow> Response option \<times> error option \<times> tagsRoot) \<Rightarrow>
   Client \<Rightarrow> ListOptions option \<Rightarrow>
   (Tag list \<times> Response option \<times> error option) outcome \<times> Client \<times> http_Request list" where
  "TagsServiceOp_List E rest c opt =
     (case addOptions E tagsBasePath opt of
        Inl e \<Rightarrow> (Returns ([], None, Some (Lib e)), c, [])
      | Inr path \<Rightarrow>
          (case NewRequest E c MethodGet path None of
             Panics \<Rightarrow> (Panics, c, [])
           | Returns (Inl e) \<Rightarrow> (Returns ([], None, Some e), c, [])
           | Returns (Inr req) \<Rightarrow>
               (let ((resp, err, root), c', sent) = Do E rest c req new_tagsRoot
                in case err of
                     Some e \<Rightarrow> (Returns ([], resp, Some e), c', sent)
                   | None \<Rightarrow>
                       (case set_Links (root_Links root) resp of
                          Panics \<Rightarrow> (Panics, c', sent)
                        | Returns resp1 \<Rightarrow>
                            (case set_Meta (root_Meta root) resp1 of
                               Panics \<Rightarrow> (Panics, c', sent)
                             | Returns resp2 \<Rightarrow>
                                 (Returns (Tags root, resp2, None), c', sent))))))"

definition TagsServiceOp_Get ::
  "Client \<Rightarrow> string \<Rightarrow>
   (Tag option \<times> Response option \<times> error option) outcome \<times> Client \<times> http_Request list" where
  "TagsServiceOp_Get c name = (Returns (None, None, None), c, [])"

definition TagsServiceOp_Create ::
  "Client \<Rightarrow> string \<Rightarrow>
   (Tag option \<times> Response option \<times> error option) outcome \<times> Client \<times> http_Request list" where
  "TagsServiceOp_Create c some = (Returns (None, None, None), c, [])"

definition TagsServiceOp_Delete ::
  "Client \<Rightarrow> string \<Rightarrow>
   (Response option \<times> error option) outcome \<times> Client \<times> http_Request list" where
  "TagsServiceOp_Delete c some = (Returns (None, None), c, [])"

section \<open>Observing a classification\<close>

text \<open>
  The variant of the classifier's result and the message it carries, so that two results
  can be compared without the response they hold.
\<close>

datatype variant = NoError | Generic | RateLimited | Library

definition classification :: "error option \<Rightarrow> variant \<times> string" where
  "classification e =
     (case e of
        None \<Rightarrow> (NoError, [])
      | Some (ErrErrorResponse x) \<Rightarrow> (Generic, er_Message x)
      | Some (ErrRateLimit x) \<Rightarrow> (RateLimited, rle_Message x)
      | Some (Lib _) \<Rightarrow> (Library, []))"

section \<open>Concrete collaborators and inputs\<close>

text \<open>
  Five response bodies and a decoder that knows them: an object under \<open>Response\<close> that
  sets the status code to 500, to 403 or to 200, \<open>null\<close> under \<open>Response\<close>, and a
  message. It
  takes every other text as not being JSON, which is right of the other bodies used
  below (\<open>boom\<close>, \<open>slow down\<close>, \<open>par\<close>).
\<close>

definition body_status_500 :: string where
  \<open>body_status_500 = ''{"Response":{"StatusCode":500}}''\<close>

definition body_status_403 :: string where
  \<open>body_status_403 = ''{"Response":{"StatusCode":403}}''\<close>

definition body_status_200 :: string where
  \<open>body_status_200 = ''{"Response":{"StatusCode":200}}''\<close>

definition body_Response_null :: string where
  \<open>body_Response_null = ''{"Response":null}''\<close>

definition body_message :: string where
  \<open>body_message = ''{"message":"slow down"}''\<close>

definition json_sample :: "string \<Rightarrow> http_Response \<Rightarrow> unmarshal_result" where
  "json_sample data r =
     (if data = body_status_500 then
        \<lparr>um_err = None, um_target = r\<lparr>StatusCode := 500\<rparr>, um_Response = PtrSame,
         um_Message = []\<rparr>
      else if data = body_status_403 then
        \<lparr>um_err = None, um_target = r\<lparr>StatusCode := 403\<rparr>, um_Response = PtrSame,
         um_Message = []\<rparr>
      else if data = body_status_200 then
        \<lparr>um_err = None, um_target = r\<lparr>StatusCode := 200\<rparr>, um_Response = PtrSame,
         um_Message = []\<rparr>
      else if data = body_Response_null then
        \<lparr>um_err = None, um_target = r, um_Response = PtrNil, um_Message = []\<rparr>
      else if data = body_message then
        \<lparr>um_err = None, um_target = r, um_Response = PtrSame, um_Message = ''slow down''\<rparr>
      else
        \<lparr>um_err = Some (LibError ''invalid character''), um_target = r,
         um_Response = PtrSame, um_Message = []\<rparr>)"

text \<open>
  A small environment: references are resolved by appending them to the base, every
  string is a valid URL, the encoder of request bodies is the identity on strings, the
  clock stands in November 2025 (seconds counted from the zero instant), and the
  transport answers 200 with no headers and no body. The rest of \<open>Do\<close> after a
  successful classification returns the response and no error.
\<close>

definition resp_plain :: "int \<Rightarrow> Header \<Rightarrow> string \<Rightarrow> http_Request \<Rightarrow> http_Response" where
  "resp_plain code h body req =
     \<lparr>Status = [], StatusCode = code, resp_Header = h, resp_Body = NopCloser body,
      Request = Some req\<rparr>"

definition E0 :: "string env" where
  "E0 = \<lparr>url_Parse_ref = (\<lambda>base ref. Inr (base @ ref)),
         url_Parse = (\<lambda>u. Inr u),
         json_Encode = (\<lambda>b. Inr b),
         json_Unmarshal = json_sample,
         Sprintf_rate = (\<lambda>l t. ''API rate limit still exceeded''),
         time_Now = \<lparr>sec = 63900000000, nsec = 0\<rparr>,
         client_Do = resp_plain 200 Map.empty [],
         addOptions = (\<lambda>p opt. Inr p)\<rparr>"

definition c0 :: Client where
  "c0 = \<lparr>BaseURL = defaultBaseURL, UserAgent = userAgent, Rate = zero_Rate, headers = Map.empty\<rparr>"

definition rest0 :: "Response \<Rightarrow> 'v \<Rightarrow> Response option \<times> error option \<times> 'v" where
  "rest0 response v = (Some response, None, v)"

definition req0 :: http_Request where
  "req0 = \<lparr>Method = ''GET'', URL = ''https://api.digitalocean.com/v2/tags'',
           Header = Map.empty, Body = None\<rparr>"

definition c_throttled :: Client where
  "c_throttled = c0\<lparr>Rate := \<lparr>Limit = 5000, Remaining = 0,
                              Reset = Timestamp (time_Unix 1800000000 0)\<rparr>\<rparr>"

definition c_cached :: Client where
  "c_cached = c0\<lparr>Rate := \<lparr>Limit = 5000, Remaining = 5,
                           Reset = Timestamp (time_Unix 1800000000 0)\<rparr>\<rparr>"

definition rate_headers :: Header where
  "rate_headers = [''Ratelimit-Limit'' \<mapsto> [''5000''], ''Ratelimit-Remaining'' \<mapsto> [''42''],
                   ''Ratelimit-Reset'' \<mapsto> [''1800000000'']]"

definition exhausted_headers :: Header where
  "exhausted_headers = [''Ratelimit-Limit'' \<mapsto> [''5000''], ''Ratelimit-Remaining'' \<mapsto> [''0''],
                        ''Ratelimit-Reset'' \<mapsto> [''1800000000'']]"

definition req_tags :: http_Request where
  "req_tags = \<lparr>Method = ''GET'', URL = ''https://api.digitalocean.com/v2/tags'',
               Header = [''Accept'' \<mapsto> [''application/json''], ''User-Agent'' \<mapsto> [''godo/1.60.0'']],
               Body = None\<rparr>"

definition enc_fails :: "string \<Rightarrow> lib_error + string" where
  "enc_fails b = Inl (LibError ''json: unsupported type'')"

text \<open>
  A response whose body delivers three bytes and then breaks off.
\<close>

definition resp_broken :: http_Response where
  "resp_broken =
     \<lparr>Status = [], StatusCode = 500, resp_Header = Map.empty,
      resp_Body = ReadCloser ''par'' (Some (LibError ''unexpected EOF'')),
      Request = Some req0\<rparr>"

section \<open>Evaluation lemmas\<close>

lemma canonical_Remaining:
  "CanonicalMIMEHeaderKey headerRateRemaining = ''Ratelimit-Remaining''"
  by code_simp

lemma canonical_Limit: "CanonicalMIMEHeaderKey headerRateLimit = ''Ratelimit-Limit''"
  by code_simp

lemma canonical_Reset: "CanonicalMIMEHeaderKey headerRateReset = ''Ratelimit-Reset''"
  by code_simp

lemma canonical_Accept: "CanonicalMIMEHeaderKey ''Accept'' = ''Accept''"
  by code_simp

lemma canonical_User_Agent: "CanonicalMIMEHeaderKey ''User-Agent'' = ''User-Agent''"
  by code_simp

lemma canonical_Content_Type: "CanonicalMIMEHeaderKey ''Content-Type'' = ''Content-Type''"
  by code_simp

lemma Atoi_0: "Atoi ''0'' = (0, None)"
  by code_simp

lemma Atoi_42: "Atoi ''42'' = (42, None)"
  by code_simp

lemma Atoi_5000: "Atoi ''5000'' = (5000, None)"
  by code_simp

lemma ParseInt_reset: "ParseInt ''1800000000'' = (1800000000, None)"
  by code_simp

lemmas sample_bodies =
  body_status_500_def body_status_403_def body_status_200_def body_Response_null_def
  body_message_def

lemma Atoi_Nil: "Atoi [] = (0, Some ErrSyntax)"
  by (simp add: Atoi_def ParseInt_def)

lemma validMethod_std:
  "validMethod MethodGet" "validMethod MethodHead" "validMethod MethodOptions" "validMethod MethodPost"
  by code_simp+

lemma parseRate_body [simp]: "parseRate (r\<lparr>resp_Body := b\<rparr>) rate = parseRate r rate"
  by (simp add: parseRate_def)

lemma parseRate_Remaining:
  "Remaining (parseRate r rate) =
     (if Header_Get (resp_Header r) headerRateRemaining = [] then Remaining rate
      else fst (Atoi (Header_Get (resp_Header r) headerRateRemaining)))"
  by (simp add: parseRate_def Let_def)

section \<open>The pipeline and the cached rate\<close>

text \<open>
  Claim C1. When the cached rate has \<open>Remaining = 0\<close> and the clock reads an instant
  strictly before \<open>Reset\<close>, \<open>Do\<close> hands nothing to the transport, leaves the client as
  it is, and returns a \<open>RateLimitError\<close> holding the cached rate and a response made on
  the spot with status 403, wrapped in a \<open>Response\<close> with the same rate. The clock is
  taken not to read before the zero instant of \<open>time.Time\<close>, as \<open>time.Now\<close> never does;
  the code's own test that \<open>Reset\<close> is set then follows from the other two.
\<close>

theorem Do_throttled:
  assumes "Remaining (Rate c) = 0"
    and "Time_Before (time_Now E) (Time_of (Reset (Rate c)))"
    and "\<not> Time_Before (time_Now E) zero_Time"
  shows "Do E rest c req v =
     (let fake = \<lparr>Status = ''Forbidden'', StatusCode = 403, resp_Header = Map.empty,
                   resp_Body = NopCloser [], Request = Some req\<rparr>
      in ((Some \<lparr>Response_http = Some fake, Response_Rate = Rate c,
                  Response_Links = None, Response_Meta = None\<rparr>,
           Some (ErrRateLimit (RateLimitError (Rate c) (Some fake)
                   (Sprintf_rate E (Limit (Rate c)) (Time_of (Reset (Rate c)))))),
           v), c, []))"
proof -
  have nz: "\<not> Time_IsZero (Time_of (Reset (Rate c)))"
  proof
    assume z: "Time_IsZero (Time_of (Reset (Rate c)))"
    with assms(2) have "Time_Before (time_Now E) zero_Time"
      by (simp add: Time_IsZero_def Time_Before_def zero_Time_def)
    with assms(3) show False by simp
  qed
  with assms(1,2) show ?thesis
    by (simp add: Do_def checkRateLimitBeforeDo_def Let_def StatusForbidden_def)
qed

theorem Do_throttled_witness:
  "Remaining (Rate c_throttled) = 0
   \<and> Time_Before (time_Now E0) (Time_of (Reset (Rate c_throttled)))
   \<and> \<not> Time_Before (time_Now E0) zero_Time
   \<and> Do E0 rest0 c_throttled req0 () =
       ((Some \<lparr>Response_http = Some \<lparr>Status = ''Forbidden'', StatusCode = 403,
                                        resp_Header = Map.empty, resp_Body = NopCloser [],
                                        Request = Some req0\<rparr>,
                Response_Rate = Rate c_throttled,
                Response_Links = None, Response_Meta = None\<rparr>,
         Some (ErrRateLimit (RateLimitError (Rate c_throttled)
                 (Some \<lparr>Status = ''Forbidden'', StatusCode = 403,
                         resp_Header = Map.empty, resp_Body = NopCloser [],
                         Request = Some req0\<rparr>)
                 ''API rate limit still exceeded'')),
         ()), c_throttled, [])"
proof -
  have h1: "Remaining (Rate c_throttled) = 0"
    by (simp add: c_throttled_def)
  have h2: "Time_Before (time_Now E0) (Time_of (Reset (Rate c_throttled)))"
    by (simp add: c_throttled_def E0_def Time_Before_def time_Unix_def wrap64_def
        unixToInternal_def)
  have h3: "\<not> Time_Before (time_Now E0) zero_Time"
    by (simp add: E0_def Time_Before_def zero_Time_def)
  have "Sprintf_rate E0 (Limit (Rate c_throttled)) (Time_of (Reset (Rate c_throttled)))
          = ''API rate limit still exceeded''"
    by (simp add: E0_def)
  with Do_throttled [OF h1 h2 h3, of rest0 req0 "()"] h1 h2 h3 show ?thesis
    by (simp add: Let_def)
qed


text \<open>
  Claim C3, as the code has it. When a response is processed (the rate check let the
  request through), the cached \<open>Remaining\<close> afterwards is the integer of the
  \<open>RateLimit-Remaining\<close> header when the header is there and parses; when the header is
  absent it is 0, whatever was cached before: \<open>Do\<close> stores the rate of the fresh
  response, whose fields start from the zero value.
\<close>

theorem Do_Remaining_amended:
  assumes "checkRateLimitBeforeDo E c req = None"
  shows "(resp_Header (client_Do E req) ''Ratelimit-Remaining'' = None \<longrightarrow>
            Remaining (Rate (fst (snd (Do E rest c req v)))) = 0)
       \<and> (\<forall>n. Atoi (Header_Get (resp_Header (client_Do E req)) headerRateRemaining) = (n, None) \<longrightarrow>
            Remaining (Rate (fst (snd (Do E rest c req v)))) = n)"
proof -
  let ?h = "Header_Get (resp_Header (client_Do E req)) headerRateRemaining"
  have upd: "Remaining (Rate (fst (snd (Do E rest c req v)))) =
               (if ?h = [] then 0 else fst (Atoi ?h))"
    using assms
    by (simp add: Do_def Let_def newResponse_def parseRate_Remaining zero_Rate_def
        split: prod.split option.split)
  have absent: "resp_Header (client_Do E req) ''Ratelimit-Remaining'' = None \<Longrightarrow> ?h = []"
    by (simp add: Header_Get_def canonical_Remaining)
  have parsed: "\<And>n. Atoi ?h = (n, None) \<Longrightarrow> ?h \<noteq> [] \<and> fst (Atoi ?h) = n"
    by (auto simp add: Atoi_Nil)
  show ?thesis
    using upd absent parsed by auto
qed

theorem Do_Remaining_amended_witness:
  "checkRateLimitBeforeDo E0 c_cached req0 = None
   \<and> resp_Header (client_Do E0 req0) ''Ratelimit-Remaining'' = None
   \<and> Remaining (Rate (fst (snd (Do E0 rest0 c_cached req0 ())))) = 0
   \<and> checkRateLimitBeforeDo (E0\<lparr>client_Do := resp_plain 200 rate_headers []\<rparr>) c_cached req0 = None
   \<and> Atoi (Header_Get (resp_Header (resp_plain 200 rate_headers [] req0)) headerRateRemaining)
       = (42, None)
   \<and> Remaining (Rate (fst (snd (Do (E0\<lparr>client_Do := resp_plain 200 rate_headers []\<rparr>) rest0
                                   c_cached req0 ())))) = 42"
proof -
  let ?E = "E0\<lparr>client_Do := resp_plain 200 rate_headers []\<rparr>"
  have h0: "checkRateLimitBeforeDo E0 c_cached req0 = None"
    by (simp add: checkRateLimitBeforeDo_def c_cached_def)
  have a0: "resp_Header (client_Do E0 req0) ''Ratelimit-Remaining'' = None"
    by (simp add: E0_def resp_plain_def)
  have h1: "checkRateLimitBeforeDo ?E c_cached req0 = None"
    by (simp add: checkRateLimitBeforeDo_def c_cached_def)
  have a1: "Atoi (Header_Get (resp_Header (client_Do ?E req0)) headerRateRemaining) = (42, None)"
    by (simp add: resp_plain_def rate_headers_def Header_Get_def canonical_Remaining Atoi_42)
  from Do_Remaining_amended [OF h0, of rest0 "()"] Do_Remaining_amended [OF h1, of rest0 "()"]
    h0 a0 h1 a1
  show ?thesis by simp
qed

text \<open>
  The claim as first stated, that an absent header keeps the cached value, fails: a
  client that has 5 cached and receives a response without the header has 0 afterwards.
\<close>

theorem Do_Remaining_counterexample:
  "checkRateLimitBeforeDo E0 c_cached req0 = None
   \<and> resp_Header (client_Do E0 req0) ''Ratelimit-Remaining'' = None
   \<and> Remaining (Rate c_cached) = 5
   \<and> Remaining (Rate (fst (snd (Do E0 rest0 c_cached req0 ())))) = 0"
  by (simp add: Do_def checkRateLimitBeforeDo_def c_cached_def c0_def E0_def resp_plain_def
      Time_Before_def Time_IsZero_def time_Unix_def wrap64_def unixToInternal_def
      newResponse_def parseRate_Remaining Header_Get_def zero_Rate_def CheckResponse_def
      rest0_def Let_def)

section \<open>The classifier\<close>

text \<open>
  The rate that \<open>parseRate\<close> builds from the zero value, field by field.
\<close>

lemma parseRate_zero:
  "parseRate r zero_Rate =
     \<lparr>Limit = (if Header_Get (resp_Header r) headerRateLimit = [] then 0
                else fst (Atoi (Header_Get (resp_Header r) headerRateLimit))),
      Remaining = (if Header_Get (resp_Header r) headerRateRemaining = [] then 0
                   else fst (Atoi (Header_Get (resp_Header r) headerRateRemaining))),
      Reset = (if Header_Get (resp_Header r) headerRateReset = []
                  \<or> fst (ParseInt (Header_Get (resp_Header r) headerRateReset)) = 0
               then Timestamp zero_Time
               else Timestamp (time_Unix
                      (fst (ParseInt (Header_Get (resp_Header r) headerRateReset))) 0))\<rparr>"
  by (simp add: parseRate_def zero_Rate_def Let_def)

text \<open>
  Where decoding the body does not write into the response and leaves the pointer on
  it, the classifier goes by the status and the headers of the response it was given:
  403 with a \<open>RateLimit-Remaining\<close> of \<open>0\<close> gives a \<open>RateLimitError\<close> with the rate of
  the headers, every other status outside 200 to 299 a generic \<open>ErrorResponse\<close>; both
  hold the response with its body put back. The message is empty when the body cannot
  be read or is empty, the raw body when decoding fails, and the decoded message
  otherwise.
\<close>

lemma CheckResponse_decoding_apart:
  assumes "\<not> (200 \<le> StatusCode r \<and> StatusCode r \<le> 299)"
    and "um_target (json_Unmarshal E (delivered (resp_Body r)) r) = r"
    and "um_Response (json_Unmarshal E (delivered (resp_Body r)) r) = PtrSame"
  shows "fst (CheckResponse E r) =
           (let data = delivered (resp_Body r);
                um = json_Unmarshal E data r;
                message = (if fault (resp_Body r) = None \<and> data \<noteq> []
                           then (if um_err um \<noteq> None then data else um_Message um)
                           else []);
                r' = r\<lparr>resp_Body := NopCloser data\<rparr>
            in if StatusCode r = 403 \<and> Header_Get (resp_Header r) headerRateRemaining = ''0''
               then Some (ErrRateLimit (RateLimitError (parseRate r zero_Rate) (Some r') message))
               else Some (ErrErrorResponse (ErrorResponse (Some r') message)))"
  using assms
  by (simp add: CheckResponse_def ReadAll_def Let_def StatusForbidden_def)

text \<open>
  Claim C2 says that every response with status 403 and a \<open>RateLimit-Remaining\<close> of
  \<open>0\<close> is classified as a \<open>RateLimitError\<close>. The code does not do so when the body has
  an object under \<open>Response\<close> with another status code: the decoder writes that code
  into the response before the \<open>switch\<close> reads it, and the result is a generic
  \<open>ErrorResponse\<close> holding a response whose status is no longer 403.
\<close>

theorem CheckResponse_403_rewritten:
  "StatusCode (resp_plain 403 exhausted_headers body_status_500 req0) = 403
   \<and> Header_Get (resp_Header (resp_plain 403 exhausted_headers body_status_500 req0))
        headerRateRemaining = ''0''
   \<and> fst (CheckResponse E0 (resp_plain 403 exhausted_headers body_status_500 req0))
       = Some (ErrErrorResponse (ErrorResponse
           (Some (resp_plain 500 exhausted_headers body_status_500 req0)) []))"
  by (simp add: CheckResponse_def ReadAll_def NopCloser_def resp_plain_def E0_def
      json_sample_def sample_bodies
      exhausted_headers_def Header_Get_def canonical_Remaining
      StatusForbidden_def Let_def)

text \<open>
  Claim C5, as the code has it. A response with status 202 is classified like every
  other status from 200 to 299: no error, and the response is not touched. The code has
  no variant for an accepted request.
\<close>

theorem CheckResponse_202:
  assumes "StatusCode r = 202"
  shows "CheckResponse E r = (None, r)"
  using assms by (simp add: CheckResponse_def)

theorem CheckResponse_202_witness:
  "StatusCode (resp_plain 202 Map.empty [] req0) = 202
   \<and> CheckResponse E0 (resp_plain 202 Map.empty [] req0)
       = (None, resp_plain 202 Map.empty [] req0)"
proof -
  have h: "StatusCode (resp_plain 202 Map.empty [] req0) = 202"
    by (simp add: resp_plain_def)
  from CheckResponse_202 [OF h, of E0] h show ?thesis by simp
qed

text \<open>
  The claim as first stated, that 202 yields an outcome distinct from plain success,
  fails: the classifier reports no error for it.
\<close>

theorem CheckResponse_202_counterexample:
  "fst (CheckResponse E0 (resp_plain 202 Map.empty [] req0)) = None"
  by (simp add: CheckResponse_def resp_plain_def)

text \<open>
  Every status from 200 to 299 is classified as 202 is.
\<close>

lemma CheckResponse_2xx:
  assumes "200 \<le> StatusCode r" and "StatusCode r \<le> 299"
  shows "CheckResponse E r = (None, r)"
  using assms by (simp add: CheckResponse_def)

text \<open>
  Claim C6 says that every response with a status outside 200 to 299 that is not the
  rate-limit case is classified as a generic \<open>ErrorResponse\<close>. The code does not do so
  when the body has an object under \<open>Response\<close> with status code 403 and the headers say
  that nothing remains: the decoder turns the response into the rate-limit case before
  the \<open>switch\<close> reads it, and a response that came with status 500 is classified as a
  \<open>RateLimitError\<close>.
\<close>

theorem CheckResponse_500_rewritten:
  "\<not> (200 \<le> StatusCode (resp_plain 500 exhausted_headers body_status_403 req0)
        \<and> StatusCode (resp_plain 500 exhausted_headers body_status_403 req0) \<le> 299)
   \<and> StatusCode (resp_plain 500 exhausted_headers body_status_403 req0) \<noteq> 403
   \<and> fst (CheckResponse E0 (resp_plain 500 exhausted_headers body_status_403 req0))
       = Some (ErrRateLimit (RateLimitError
           \<lparr>Limit = 5000, Remaining = 0, Reset = Timestamp (time_Unix 1800000000 0)\<rparr>
           (Some (resp_plain 403 exhausted_headers body_status_403 req0)) []))"
  by (simp add: CheckResponse_def ReadAll_def NopCloser_def resp_plain_def E0_def
      json_sample_def sample_bodies
      exhausted_headers_def Header_Get_def canonical_Remaining
      canonical_Limit canonical_Reset parseRate_zero Atoi_0 Atoi_5000 ParseInt_reset
      StatusForbidden_def Let_def)

text \<open>
  With \<open>null\<close> under \<open>Response\<close> the generic error that comes back holds no response.
\<close>

lemma CheckResponse_nil_pointer:
  "fst (CheckResponse E0 (resp_plain 500 Map.empty body_Response_null req0))
     = Some (ErrErrorResponse (ErrorResponse None []))"
  by (simp add: CheckResponse_def ReadAll_def NopCloser_def resp_plain_def E0_def
      json_sample_def sample_bodies
      Header_Get_def StatusForbidden_def Let_def)

text \<open>
  Claim C9, as the code has it. Classifying once more the response that a first
  classification leaves behind gives the same result, and so the same variant and the
  same message, provided the body was read without a fault and decoding it does not
  write into the response: the body has been put back as it was.
\<close>

theorem CheckResponse_twice:
  assumes "fault (resp_Body r) = None"
    and "delivered (resp_Body r) = []
         \<or> um_target (json_Unmarshal E (delivered (resp_Body r)) r) = r"
  shows "CheckResponse E (snd (CheckResponse E r)) = CheckResponse E r
       \<and> classification (fst (CheckResponse E (snd (CheckResponse E r))))
           = classification (fst (CheckResponse E r))"
proof -
  have reader: "resp_Body r = NopCloser (delivered (resp_Body r))"
    using assms(1) by (cases "resp_Body r") (simp add: NopCloser_def)
  then have restored: "r\<lparr>resp_Body := NopCloser (delivered (resp_Body r))\<rparr> = r"
    by simp
  have "snd (CheckResponse E r) = r"
  proof (cases "delivered (resp_Body r) = []")
    case True
    with restored show ?thesis
      by (simp add: CheckResponse_def ReadAll_def Let_def)
  next
    case False
    with assms(2) have "um_target (json_Unmarshal E (delivered (resp_Body r)) r) = r"
      by simp
    with restored show ?thesis
      by (simp add: CheckResponse_def ReadAll_def Let_def)
  qed
  then show ?thesis by simp
qed

theorem CheckResponse_twice_witness:
  "fault (resp_Body (resp_plain 500 Map.empty ''boom'' req0)) = None
   \<and> um_target (json_Unmarshal E0 (delivered (resp_Body (resp_plain 500 Map.empty ''boom'' req0)))
        (resp_plain 500 Map.empty ''boom'' req0)) = resp_plain 500 Map.empty ''boom'' req0
   \<and> classification (fst (CheckResponse E0 (resp_plain 500 Map.empty ''boom'' req0)))
       = (Generic, ''boom'')
   \<and> classification (fst (CheckResponse E0
         (snd (CheckResponse E0 (resp_plain 500 Map.empty ''boom'' req0)))))
       = (Generic, ''boom'')"
proof -
  let ?r = "resp_plain 500 Map.empty ''boom'' req0"
  have h1: "fault (resp_Body ?r) = None"
    by (simp add: resp_plain_def NopCloser_def)
  have h2: "um_target (json_Unmarshal E0 (delivered (resp_Body ?r)) ?r) = ?r"
    by (simp add: resp_plain_def NopCloser_def E0_def json_sample_def sample_bodies)
  have first: "classification (fst (CheckResponse E0 ?r)) = (Generic, ''boom'')"
    by (simp add: CheckResponse_def classification_def resp_plain_def ReadAll_def NopCloser_def
        E0_def json_sample_def sample_bodies
        StatusForbidden_def Let_def)
  from CheckResponse_twice [OF h1 disjI2 [OF h2]] h1 h2 first show ?thesis
    by simp
qed

text \<open>
  The claim as first stated, that a second classification always agrees with the first,
  fails after a faulting read: a body that delivers \<open>par\<close> and then breaks off gives an
  empty message the first time, and the bytes read so far, which were put back as the
  body, the second time.
\<close>

theorem CheckResponse_twice_counterexample:
  "classification (fst (CheckResponse E0 resp_broken)) = (Generic, [])
   \<and> classification (fst (CheckResponse E0 (snd (CheckResponse E0 resp_broken))))
       = (Generic, ''par'')"
  by (simp add: CheckResponse_def classification_def resp_broken_def ReadAll_def NopCloser_def
      E0_def json_sample_def sample_bodies
      Header_Get_def StatusForbidden_def Let_def)

text \<open>
  Nor does a second classification agree with the first when the body rewrites the
  status: a response that came with status 500 and sets its own status code to 200 is an
  error the first time and none the second.
\<close>

lemma CheckResponse_twice_rewritten:
  "classification (fst (CheckResponse E0 (resp_plain 500 Map.empty body_status_200 req0)))
     = (Generic, [])
   \<and> classification (fst (CheckResponse E0
         (snd (CheckResponse E0 (resp_plain 500 Map.empty body_status_200 req0)))))
       = (NoError, [])"
  by (simp add: CheckResponse_def classification_def ReadAll_def NopCloser_def resp_plain_def
      E0_def json_sample_def sample_bodies Header_Get_def StatusForbidden_def Let_def)

section \<open>Building requests\<close>

text \<open>
  Claim C8. For a path that resolves to a valid URL: with GET, HEAD or OPTIONS and a
  body value supplied, the request has no body and only the two common headers, and the
  result is the same under any other encoder, so nothing is serialized; with POST and a
  body value that encodes, the request's body is the encoding and it carries
  \<open>Content-Type: application/json\<close> beside the two common headers.
\<close>

theorem NewRequest_body:
  assumes "url_Parse_ref E (BaseURL c) p = Inr u"
    and "url_Parse E u = Inr u'"
  shows "(method = MethodGet \<or> method = MethodHead \<or> method = MethodOptions \<longrightarrow>
            NewRequest E c method p (Some b) =
              Returns (Inr \<lparr>Method = method, URL = u',
                             Header = [''Accept'' \<mapsto> [mediaType], ''User-Agent'' \<mapsto> [UserAgent c]],
                             Body = None\<rparr>)
            \<and> NewRequest (E\<lparr>json_Encode := enc\<rparr>) c method p (Some b) =
                NewRequest E c method p (Some b))
       \<and> (json_Encode E b = Inr buf \<longrightarrow>
            NewRequest E c MethodPost p (Some b) =
              Returns (Inr \<lparr>Method = MethodPost, URL = u',
                             Header = [''Content-Type'' \<mapsto> [mediaType], ''Accept'' \<mapsto> [mediaType],
                                       ''User-Agent'' \<mapsto> [UserAgent c]],
                             Body = Some buf\<rparr>))"
proof -
  have ne: "MethodGet \<noteq> []" "MethodHead \<noteq> []" "MethodOptions \<noteq> []" "MethodPost \<noteq> []"
    by (simp_all add: MethodGet_def MethodHead_def MethodOptions_def MethodPost_def)
  have post: "MethodPost \<noteq> MethodGet" "MethodPost \<noteq> MethodHead" "MethodPost \<noteq> MethodOptions"
    by (simp_all add: MethodGet_def MethodHead_def MethodOptions_def MethodPost_def)
  have bodyless: "NewRequest E c method p (Some b) =
              Returns (Inr \<lparr>Method = method, URL = u',
                             Header = [''Accept'' \<mapsto> [mediaType], ''User-Agent'' \<mapsto> [UserAgent c]],
                             Body = None\<rparr>)
            \<and> NewRequest (E\<lparr>json_Encode := enc\<rparr>) c method p (Some b) =
                NewRequest E c method p (Some b)"
    if "method = MethodGet \<or> method = MethodHead \<or> method = MethodOptions"
    using that assms ne validMethod_std
    by (auto simp add: NewRequest_def http_NewRequest_def set_common_headers_def Header_Set_def
        canonical_Accept canonical_User_Agent Let_def)
  have withbody: "NewRequest E c MethodPost p (Some b) =
              Returns (Inr \<lparr>Method = MethodPost, URL = u',
                             Header = [''Content-Type'' \<mapsto> [mediaType], ''Accept'' \<mapsto> [mediaType],
                                       ''User-Agent'' \<mapsto> [UserAgent c]],
                             Body = Some buf\<rparr>)"
    if "json_Encode E b = Inr buf"
    using that assms ne post validMethod_std
    by (simp add: NewRequest_def http_NewRequest_def set_common_headers_def Header_Set_def
        canonical_Accept canonical_User_Agent canonical_Content_Type Let_def)
  show ?thesis
    using bodyless withbody by blast
qed

theorem NewRequest_body_witness:
  "url_Parse_ref E0 (BaseURL c0) ''v2/tags'' = Inr ''https://api.digitalocean.com/v2/tags''
   \<and> url_Parse E0 ''https://api.digitalocean.com/v2/tags'' = Inr ''https://api.digitalocean.com/v2/tags''
   \<and> json_Encode E0 ''{name: db}'' = Inr ''{name: db}''
   \<and> NewRequest E0 c0 MethodGet ''v2/tags'' (Some ''{name: db}'') = Returns (Inr req_tags)
   \<and> NewRequest (E0\<lparr>json_Encode := enc_fails\<rparr>) c0 MethodGet ''v2/tags'' (Some ''{name: db}'')
       = Returns (Inr req_tags)
   \<and> NewRequest E0 c0 MethodPost ''v2/tags'' (Some ''{name: db}'') =
       Returns (Inr \<lparr>Method = ''POST'', URL = ''https://api.digitalocean.com/v2/tags'',
                      Header = [''Content-Type'' \<mapsto> [''application/json''],
                                ''Accept'' \<mapsto> [''application/json''],
                                ''User-Agent'' \<mapsto> [''godo/1.60.0'']],
                      Body = Some ''{name: db}''\<rparr>)"
proof -
  have h1: "url_Parse_ref E0 (BaseURL c0) ''v2/tags'' = Inr ''https://api.digitalocean.com/v2/tags''"
    by (simp add: E0_def c0_def defaultBaseURL_def)
  have h2: "url_Parse E0 ''https://api.digitalocean.com/v2/tags''
              = Inr ''https://api.digitalocean.com/v2/tags''"
    by (simp add: E0_def)
  have h3: "json_Encode E0 ''{name: db}'' = Inr ''{name: db}''"
    by (simp add: E0_def)
  have vals: "mediaType = ''application/json''" "UserAgent c0 = ''godo/1.60.0''"
    "MethodGet = ''GET''" "MethodPost = ''POST''"
    by (simp_all add: mediaType_def c0_def userAgent_def libraryVersion_def MethodGet_def
        MethodPost_def)
  from NewRequest_body [OF h1 h2, of MethodGet "''{name: db}''" enc_fails "''{name: db}''"]
    h1 h2 h3 vals
  show ?thesis
    by (simp add: req_tags_def)
qed

text \<open>
  The two common headers. For the four methods the \<open>switch\<close> names, a request that is
  returned carries both. For any other method the \<open>switch\<close> leaves \<open>req\<close> nil, and the
  write of the \<open>Accept\<close> header panics, whatever the path resolves to.
\<close>

lemma set_common_headers_carries:
  assumes "set_common_headers c (Some r) = Returns (Inr req)"
  shows "Header_Get (Header req) ''Accept'' = mediaType
       \<and> Header_Get (Header req) ''User-Agent'' = UserAgent c"
proof -
  have "req = r\<lparr>Header := (Header r)(''Accept'' \<mapsto> [mediaType], ''User-Agent'' \<mapsto> [UserAgent c])\<rparr>"
    using assms
    by (simp add: set_common_headers_def Header_Set_def canonical_Accept canonical_User_Agent
        Let_def)
  then show ?thesis
    by (simp add: Header_Get_def canonical_Accept canonical_User_Agent)
qed

lemma NewRequest_standard_headers:
  assumes "method = MethodGet \<or> method = MethodHead \<or> method = MethodOptions \<or> method = MethodPost"
    and "NewRequest E c method p body = Returns (Inr req)"
  shows "Header_Get (Header req) ''Accept'' = mediaType
       \<and> Header_Get (Header req) ''User-Agent'' = UserAgent c"
proof -
  obtain r where "set_common_headers c (Some r) = Returns (Inr req)"
    using assms
    by (auto simp add: NewRequest_def split: sum.splits if_splits)
  then show ?thesis
    by (rule set_common_headers_carries)
qed

lemma NewRequest_default_panics:
  assumes "method \<noteq> MethodGet" "method \<noteq> MethodHead" "method \<noteq> MethodOptions"
    "method \<noteq> MethodPost"
  shows "NewRequest E c method p body =
           (case url_Parse_ref E (BaseURL c) p of
              Inl e \<Rightarrow> Returns (Inl (Lib e))
            | Inr u \<Rightarrow> Panics)"
  using assms by (simp add: NewRequest_def set_common_headers_def split: sum.split)

text \<open>
  Claim C4 says that a request with both headers comes back for every method. The code
  does not do so at DELETE: on a default client, with a path that resolves, \<open>NewRequest\<close>
  panics instead of returning a request.
\<close>

theorem NewRequest_DELETE_panics:
  "NewRequest E0 c0 MethodDelete ''v2/tags/x'' None = Panics"
  by (simp add: NewRequest_def set_common_headers_def E0_def MethodDelete_def MethodGet_def
      MethodHead_def MethodOptions_def MethodPost_def)

section \<open>The tags service\<close>

text \<open>
  Claim C10. \<open>Get\<close>, \<open>Create\<close> and \<open>Delete\<close> return nil in every component, leave the
  client as it is and hand nothing to the transport. \<open>List\<close> goes through the pipeline:
  when adding the options fails it returns that error and sends nothing; when the
  options are added and the request is built, the client afterwards and the requests
  handed to the transport are those of \<open>Do\<close> on that request with a fresh root, and what
  \<open>List\<close> returns is made from what \<open>Do\<close> returns: its response and error when there
  is an error, else the tags of the root with the links and the meta of the root
  written into the response. When the rate check lets the request through, it is the
  one request handed to the transport and the cached rate afterwards is the rate of the
  headers of the answer.
\<close>

theorem tags_stubs:
  "TagsServiceOp_Get c name = (Returns (None, None, None), c, [])
   \<and> TagsServiceOp_Create c name = (Returns (None, None, None), c, [])
   \<and> TagsServiceOp_Delete c name = (Returns (None, None), c, [])
   \<and> (addOptions E tagsBasePath opt = Inl e \<longrightarrow>
        TagsServiceOp_List E rest c opt = (Returns ([], None, Some (Lib e)), c, []))
   \<and> (addOptions E tagsBasePath opt = Inr path
        \<and> NewRequest E c MethodGet path None = Returns (Inr req) \<longrightarrow>
      snd (TagsServiceOp_List E rest c opt) = snd (Do E rest c req new_tagsRoot)
      \<and> fst (TagsServiceOp_List E rest c opt) =
          (case fst (Do E rest c req new_tagsRoot) of
             (resp, Some err, root) \<Rightarrow> Returns ([], resp, Some err)
           | (resp, None, root) \<Rightarrow>
               (case set_Links (root_Links root) resp of
                  Panics \<Rightarrow> Panics
                | Returns resp1 \<Rightarrow>
                    (case set_Meta (root_Meta root) resp1 of
                       Panics \<Rightarrow> Panics
                     | Returns resp2 \<Rightarrow> Returns (Tags root, resp2, None))))
      \<and> (checkRateLimitBeforeDo E c req = None \<longrightarrow>
           snd (snd (TagsServiceOp_List E rest c opt)) = [req]
           \<and> Rate (fst (snd (TagsServiceOp_List E rest c opt)))
               = parseRate (client_Do E req) zero_Rate))"
proof -
  have stubs: "TagsServiceOp_Get c name = (Returns (None, None, None), c, [])"
    "TagsServiceOp_Create c name = (Returns (None, None, None), c, [])"
    "TagsServiceOp_Delete c name = (Returns (None, None), c, [])"
    by (simp_all add: TagsServiceOp_Get_def TagsServiceOp_Create_def TagsServiceOp_Delete_def)
  have noopt: "TagsServiceOp_List E rest c opt = (Returns ([], None, Some (Lib e)), c, [])"
    if "addOptions E tagsBasePath opt = Inl e"
    using that by (simp add: TagsServiceOp_List_def)
  have through: "snd (TagsServiceOp_List E rest c opt) = snd (Do E rest c req new_tagsRoot)
      \<and> fst (TagsServiceOp_List E rest c opt) =
          (case fst (Do E rest c req new_tagsRoot) of
             (resp, Some err, root) \<Rightarrow> Returns ([], resp, Some err)
           | (resp, None, root) \<Rightarrow>
               (case set_Links (root_Links root) resp of
                  Panics \<Rightarrow> Panics
                | Returns resp1 \<Rightarrow>
                    (case set_Meta (root_Meta root) resp1 of
                       Panics \<Rightarrow> Panics
                     | Returns resp2 \<Rightarrow> Returns (Tags root, resp2, None))))"
    if "addOptions E tagsBasePath opt = Inr path"
      and "NewRequest E c MethodGet path None = Returns (Inr req)"
    using that
    by (simp add: TagsServiceOp_List_def Let_def
        split: prod.split option.split outcome.split)
  have sent: "snd (snd (Do E rest c req new_tagsRoot)) = [req]
      \<and> Rate (fst (snd (Do E rest c req new_tagsRoot))) = parseRate (client_Do E req) zero_Rate"
    if "checkRateLimitBeforeDo E c req = None"
    using that
    by (simp add: Do_def newResponse_def Let_def split: prod.split option.split)
  show ?thesis
    using stubs noopt through sent by simp
qed

theorem tags_stubs_witness:
  "TagsServiceOp_Get c0 ''db'' = (Returns (None, None, None), c0, [])
   \<and> TagsServiceOp_Create c0 ''db'' = (Returns (None, None, None), c0, [])
   \<and> TagsServiceOp_Delete c0 ''db'' = (Returns (None, None), c0, [])
   \<and> addOptions (E0\<lparr>addOptions := (\<lambda>p opt. Inl (LibError ''bad options''))\<rparr>) tagsBasePath None
       = Inl (LibError ''bad options'')
   \<and> TagsServiceOp_List (E0\<lparr>addOptions := (\<lambda>p opt. Inl (LibError ''bad options''))\<rparr>) rest0 c0 None
       = (Returns ([], None, Some (Lib (LibError ''bad options''))), c0, [])
   \<and> addOptions E0 tagsBasePath None = Inr ''v2/tags''
   \<and> NewRequest E0 c0 MethodGet ''v2/tags'' None = Returns (Inr req_tags)
   \<and> checkRateLimitBeforeDo E0 c0 req_tags = None
   \<and> TagsServiceOp_List E0 rest0 c0 None =
       (Returns ([],
                 Some \<lparr>Response_http = Some (resp_plain 200 Map.empty [] req_tags),
                        Response_Rate = zero_Rate,
                        Response_Links = None, Response_Meta = None\<rparr>,
                 None),
        c0, [req_tags])"
proof -
  let ?Ebad = "E0\<lparr>addOptions := (\<lambda>p opt. Inl (LibError ''bad options''))\<rparr>"
  have h0: "addOptions ?Ebad tagsBasePath None = Inl (LibError ''bad options'')"
    by simp
  have h1: "addOptions E0 tagsBasePath None = Inr ''v2/tags''"
    by (simp add: E0_def tagsBasePath_def)
  have h2: "NewRequest E0 c0 MethodGet ''v2/tags'' None = Returns (Inr req_tags)"
    using validMethod_std(1)
    by (simp add: NewRequest_def http_NewRequest_def set_common_headers_def Header_Set_def
        canonical_Accept canonical_User_Agent E0_def c0_def defaultBaseURL_def mediaType_def
        userAgent_def libraryVersion_def req_tags_def MethodGet_def Let_def)
  have h3: "checkRateLimitBeforeDo E0 c0 req_tags = None"
    by (simp add: checkRateLimitBeforeDo_def c0_def zero_Rate_def zero_Time_def Time_IsZero_def)
  have run: "Do E0 rest0 c0 req_tags new_tagsRoot =
      ((Some \<lparr>Response_http = Some (resp_plain 200 Map.empty [] req_tags),
               Response_Rate = zero_Rate, Response_Links = None, Response_Meta = None\<rparr>,
        None, new_tagsRoot), c0, [req_tags])"
  proof -
    have plain: "parseRate (resp_plain 200 Map.empty [] req_tags) zero_Rate = zero_Rate"
      by (simp add: parseRate_def Header_Get_def resp_plain_def Let_def)
    have answer: "client_Do E0 req_tags = resp_plain 200 Map.empty [] req_tags"
      by (simp add: E0_def)
    have ok: "CheckResponse E0 (resp_plain 200 Map.empty [] req_tags)
                = (None, resp_plain 200 Map.empty [] req_tags)"
      by (simp add: CheckResponse_def resp_plain_def)
    show ?thesis
      using h3 plain answer ok
      by (simp add: Do_def newResponse_def rest0_def c0_def Let_def)
  qed
  have links: "root_Links new_tagsRoot = None" "root_Meta new_tagsRoot = None"
    "Tags new_tagsRoot = []"
    by (simp_all add: new_tagsRoot_def)
  from tags_stubs [of c0 "''db''" ?Ebad None "LibError ''bad options''" rest0]
    tags_stubs [of c0 "''db''" E0 None _ rest0 "''v2/tags''" req_tags]
    h0 h1 h2 h3 run links
  show ?thesis
    by (simp add: set_Links_def set_Meta_def prod_eq_iff)
qed

end
